theory Spec2Isabelle
  imports Main "HOL-Library.Mapping"
begin

section \<open>Errors and formatted messages\<close>

text \<open>
  Go's \<open>error\<close> values, as the commands build them. The arguments of a format string are
  kept beside the format instead of being rendered into it.
\<close>

datatype fmtarg = S string | I int | B bool | L "string list" | E error
and error =
    MissingOption string
  | InvalidOptionf string fmtarg string "fmtarg list"
  | Errorf string "fmtarg list"
  | Wrapf error string "fmtarg list"
  | Wrap error string
  | WithStack error
  | ErrSyntax string
  | ErrRange string
  | External string
  | Panic string

text \<open>
  \<open>MissingOption\<close> and \<open>InvalidOptionf\<close> are the errors of the package \<open>util\<close>;
  \<open>ErrSyntax\<close> and \<open>ErrRange\<close> are those of \<open>strconv\<close>; \<open>External\<close> is an error
  that a collaborator outside the source returns; \<open>Panic\<close> is a run-time panic.
\<close>

section \<open>The parts of Go's standard library that the commands use\<close>

text \<open>
  A Go string is a sequence of bytes, here a \<open>char list\<close>.
  \<open>strings.HasPrefix\<close>, \<open>strings.TrimPrefix\<close> and \<open>strings.Join\<close> compare and copy bytes.
\<close>

definition HasPrefix :: "string \<Rightarrow> string \<Rightarrow> bool" where
  "HasPrefix s p = (length p \<le> length s \<and> take (length p) s = p)"

definition TrimPrefix :: "string \<Rightarrow> string \<Rightarrow> string" where
  "TrimPrefix s p = (if HasPrefix s p then drop (length p) s else s)"

fun Join :: "string list \<Rightarrow> string \<Rightarrow> string" where
  "Join [] sep = []"
| "Join [x] sep = x"
| "Join (x # y # ys) sep = x @ sep @ Join (y # ys) sep"

text \<open>
  \<open>strconv.Atoi\<close> on a platform whose \<open>int\<close> has 64 bits, which is \<open>ParseInt\<close> in
  base 10: an optional sign, then \<open>ParseUint\<close> on the rest. \<open>ParseUint\<close> reads the bytes
  from the left: a byte that is not a decimal digit is a syntax error; a digit with which
  the number no longer fits 64 bits is a range error, returned at that digit, whatever
  follows it. A syntax error gives 0 with the error; a value out of range gives the
  nearest bound of \<open>int\<close> with the error. Both results are returned, as in Go.
\<close>

definition is_digit :: "char \<Rightarrow> bool" where
  "is_digit c = (48 \<le> (of_char c :: nat) \<and> (of_char c :: nat) \<le> 57)"

definition maxUint64 :: nat where
  "maxUint64 = 18446744073709551615"

datatype uint_result = UintSyntax | UintRange | Uint nat

fun ParseUint_digits :: "nat \<Rightarrow> string \<Rightarrow> uint_result" where
  "ParseUint_digits n [] = Uint n"
| "ParseUint_digits n (c # cs) =
     (if \<not> is_digit c then UintSyntax
      else if n \<ge> maxUint64 div 10 + 1 then UintRange
      else (let n1 = n * 10 + ((of_char c :: nat) - 48)
            in if n1 > maxUint64 then UintRange else ParseUint_digits n1 cs))"

definition ParseUint :: "string \<Rightarrow> uint_result" where
  "ParseUint s = (if s = [] then UintSyntax else ParseUint_digits 0 s)"

definition Atoi :: "string \<Rightarrow> int \<times> error option" where
  "Atoi s =
     (case s of
        [] \<Rightarrow> (0, Some (ErrSyntax s))
      | c # cs \<Rightarrow>
          (let neg = (c = CHR ''-'');
               body = (if c = CHR ''+'' \<or> c = CHR ''-'' then cs else s)
           in case ParseUint body of
                UintSyntax \<Rightarrow> (0, Some (ErrSyntax s))
              | UintRange \<Rightarrow>
                  if \<not> neg then (2 ^ 63 - 1, Some (ErrRange s)) else (- (2 ^ 63), Some (ErrRange s))
              | Uint un \<Rightarrow>
                  if \<not> neg \<and> un \<ge> 2 ^ 63 then (2 ^ 63 - 1, Some (ErrRange s))
                  else if neg \<and> un > 2 ^ 63 then (- (2 ^ 63), Some (ErrRange s))
                  else ((if neg then - int un else int un), None)))"

text \<open>
  The regular expression of the label command is the constant \<open>[^a-zA-Z0-9]+\<close>: a
  maximal run of characters that are not ASCII letters or digits. Go matches it on the
  runes of the UTF-8 text; every byte of a rune beyond ASCII, and every byte that is not
  valid UTF-8, is at least 128 and belongs to the class, and no ASCII letter or digit is
  part of such a rune, so the runs of runes are the runs of bytes.
  \<open>ReplaceAllString\<close> with this expression puts the replacement in the place of every
  run (the replacement \<open>_\<close> of the command has no \<open>$\<close> to expand).
\<close>

definition alnum :: "char \<Rightarrow> bool" where
  "alnum c =
     (let n = (of_char c :: nat)
      in (97 \<le> n \<and> n \<le> 122) \<or> (65 \<le> n \<and> n \<le> 90) \<or> (48 \<le> n \<and> n \<le> 57))"

function ReplaceAllString :: "string \<Rightarrow> string \<Rightarrow> string" where
  "ReplaceAllString [] repl = []"
| "ReplaceAllString (c # cs) repl =
     (if alnum c then c # ReplaceAllString cs repl
      else repl @ ReplaceAllString (dropWhile (\<lambda>d. \<not> alnum d) cs) repl)"
  by pat_completeness auto
termination
  by (relation "measure (\<lambda>(s, repl). length s)")
     (auto simp: less_Suc_eq_le length_dropWhile_le)

text \<open>
  \<open>strings.ToUpper\<close> on ASCII text maps \<open>a\<close>..\<open>z\<close> to \<open>A\<close>..\<open>Z\<close> and keeps every other
  byte. (On text beyond ASCII Go maps runes by the Unicode tables; the label command only
  applies it to the result of the replacement above, which is ASCII: see
  \<open>ReplaceAllString_ascii\<close> below.)
\<close>

definition upper_char :: "char \<Rightarrow> char" where
  "upper_char c =
     (let n = (of_char c :: nat)
      in if 97 \<le> n \<and> n \<le> 122 then char_of (n - 32) else c)"

definition ToUpper :: "string \<Rightarrow> string" where
  "ToUpper s = map upper_char s"

section \<open>The command \<open>jx step pr labels\<close>\<close>

text \<open>\<open>DefaultPrefix\<close> for all PR labels environment keys.\<close>

definition DefaultPrefix :: string where
  "DefaultPrefix = ''JX_PR_LABELS''"

record GitRepository =
  Organisation :: string
  Name :: string

text \<open>
  A label of a pull request; its name is a pointer to a string in the source, and the
  command dereferences it.
\<close>

record Label =
  label_Name :: "string option"

record GitPullRequest =
  Labels :: "Label list"

text \<open>
  A git provider is what the command uses of it: \<open>GetPullRequest\<close>, from the
  organisation, the repository and the number of the pull request.
\<close>

type_synonym GitProvider = "string \<Rightarrow> GitRepository \<Rightarrow> int \<Rightarrow> error + GitPullRequest"

record StepPRLabelsOptions =
  Dir :: string
  Prefix :: string
  PullRequest :: string
  GitURL :: string

text \<open>
  What the command reads from outside the source: the provider and the repository found
  for a directory (the provider may be nil), the process environment, and the parser of
  git URLs.
\<close>

record gits_env =
  ParseGitURL :: "string \<Rightarrow> error + GitRepository"

record labels_env = gits_env +
  CreateGitProvider :: "string \<Rightarrow> error + (GitRepository \<times> GitProvider option)"
  environ :: "string \<Rightarrow> string option"

text \<open>\<open>os.Getenv\<close>: the value of the variable, empty when it is not set.\<close>

definition Getenv :: "labels_env \<Rightarrow> string \<Rightarrow> string" where
  "Getenv env k = (case environ env k of None \<Rightarrow> [] | Some v \<Rightarrow> v)"

text \<open>
  What the command does that can be seen from outside, in order: a warning of the
  logger, a call of the provider's \<open>GetPullRequest\<close>, a \<open>fmt.Printf\<close> to standard output.
\<close>

datatype pr_event =
    Warn string
  | GetPullRequestCall string GitRepository int
  | Printf string

text \<open>
  The label's environment key (\<open>envKey\<close> in the loop of \<open>Run\<close>), and the text that
  \<open>fmt.Printf\<close> writes for a label: the format is \<open>%v_%v='%v'\<close>, with no line break.
\<close>

definition envKey :: "string \<Rightarrow> string" where
  "envKey name = ReplaceAllString name ''_''"

definition label_line :: "string \<Rightarrow> string \<Rightarrow> string" where
  "label_line prefix name =
     prefix @ ''_'' @ ToUpper (envKey name) @ ''='' @ [CHR 0x27] @ name @ [CHR 0x27]"

text \<open>The loop over \<open>pr.Labels\<close>; dereferencing a nil name panics.\<close>

fun print_labels :: "string \<Rightarrow> Label list \<Rightarrow> error option \<times> pr_event list" where
  "print_labels prefix [] = (None, [])"
| "print_labels prefix (v # vs) =
     (case label_Name v of
        None \<Rightarrow> (Some (Panic ''nil pointer dereference''), [])
      | Some name \<Rightarrow>
          (let (err, evs) = print_labels prefix vs
           in (err, Printf (label_line prefix name) # evs)))"

text \<open>
  \<open>StepPRLabelsOptions.Run\<close>: the error it returns, the options as it leaves them, and
  the events in order.
\<close>

definition StepPRLabelsOptions_Run :: "labels_env \<Rightarrow> StepPRLabelsOptions \<Rightarrow>
    error option \<times> StepPRLabelsOptions \<times> pr_event list" where
  "StepPRLabelsOptions_Run env o0 =
     (case CreateGitProvider env (Dir o0) of
        Inl err \<Rightarrow> (Some err, o0, [])
      | Inr (gitInfo, provider) \<Rightarrow>
          (case provider of
             None \<Rightarrow> (Some (Errorf (''No Git provider could be found. Are you in a directory containing a ''
                                   @ [CHR 0x60] @ ''.git/config'' @ [CHR 0x60] @ '' file?'') []), o0, [])
           | Some prov \<Rightarrow>
               (let o1 = (if PullRequest o0 = []
                          then o0\<lparr>PullRequest := TrimPrefix (Getenv env ''BRANCH_NAME'') ''PR-''\<rparr>
                          else o0)
                in if PullRequest o1 = [] then (Some (MissingOption ''pr''), o1, [])
                   else
                     (let o2 = (if Prefix o1 = [] then o1\<lparr>Prefix := DefaultPrefix\<rparr> else o1);
                          (prNum, aerr) = Atoi (PullRequest o2);
                          warn = (case aerr of
                                    None \<Rightarrow> []
                                  | Some _ \<Rightarrow> [Warn (''Unable to convert PR '' @ PullRequest o2 @ '' to a number'')])
                      in case (if GitURL o2 \<noteq> []
                               then (case ParseGitURL env (GitURL o2) of
                                       Inl e \<Rightarrow> Inl (Wrapf e ''parsing %s'' [S (GitURL o2)])
                                     | Inr gi \<Rightarrow> Inr gi)
                               else Inr gitInfo) of
                           Inl e \<Rightarrow> (Some e, o2, warn)
                         | Inr gi \<Rightarrow>
                             (case prov (Organisation gi) gi prNum of
                                Inl e \<Rightarrow>
                                  (Some (Wrapf e ''failed to find PullRequest %d'' [I prNum]), o2,
                                   warn @ [GetPullRequestCall (Organisation gi) gi prNum])
                              | Inr pr \<Rightarrow>
                                  (let (err, evs) = print_labels (Prefix o2) (Labels pr)
                                   in (err, o2,
                                       warn @ [GetPullRequestCall (Organisation gi) gi prNum] @ evs)))))))"

text \<open>The text on standard output, and the numbers the provider was asked for.\<close>

fun stdout :: "pr_event list \<Rightarrow> string" where
  "stdout [] = []"
| "stdout (Printf s # evs) = s @ stdout evs"
| "stdout (_ # evs) = stdout evs"

fun lookups :: "pr_event list \<Rightarrow> int list" where
  "lookups [] = []"
| "lookups (GetPullRequestCall org gi n # evs) = n # lookups evs"
| "lookups (_ # evs) = lookups evs"

fun warnings :: "pr_event list \<Rightarrow> string list" where
  "warnings [] = []"
| "warnings (Warn s # evs) = s # warnings evs"
| "warnings (_ # evs) = warnings evs"

section \<open>The command \<open>jx step create pr regex\<close>: validation\<close>

text \<open>
  \<open>StepCreatePrOptions\<close> is embedded in the options of the command; of its fields the
  source shown reads \<open>SrcGitURL\<close>. Its method \<open>ValidateOptions\<close> is outside the source
  and is a parameter: it returns an error or nil and may change the embedded options.
\<close>

record StepCreatePrOptions =
  SrcGitURL :: string

record StepCreatePullRequestRegexOptions =
  PrOptions :: StepCreatePrOptions
  Regexp :: string
  Files :: "string list"
  Kind :: string

text \<open>
  \<open>ValidateRegexOptions\<close>: the error, the options as it leaves them, and the warnings
  it logs.
\<close>

definition ValidateRegexOptions ::
  "(bool \<Rightarrow> StepCreatePrOptions \<Rightarrow> error option \<times> StepCreatePrOptions) \<Rightarrow>
   StepCreatePullRequestRegexOptions \<Rightarrow>
   error option \<times> StepCreatePullRequestRegexOptions \<times> string list" where
  "ValidateRegexOptions ValidateOptions o0 =
     (let (verr, p) = ValidateOptions False (PrOptions o0);
          o1 = o0\<lparr>PrOptions := p\<rparr>
      in case verr of
           Some err \<Rightarrow> (Some (WithStack err), o1, [])
         | None \<Rightarrow>
             if Regexp o1 = [] then (Some (MissingOption ''regex''), o1, [])
             else
               (let o2 = (if \<not> HasPrefix (Regexp o1) ''(?m''
                          then o1\<lparr>Regexp := ''(?m)'' @ Regexp o1\<rparr> else o1);
                    warn = (if SrcGitURL (PrOptions o2) = []
                            then [''srcRepo is not provided so generated PR will not be correctly linked in release notesPR'']
                            else []);
                    o3 = (if Kind o2 = [] then o2\<lparr>Kind := ''regex''\<rparr> else o2)
                in (None, o3, warn)))"

section \<open>The command \<open>jx add app\<close>\<close>

subsection \<open>Data\<close>

text \<open>
  Of the \<open>Environment\<close> resource the source reads \<open>Spec.Source.URL\<close> and
  \<open>Spec.TeamSettings.AppsRepository\<close>; \<open>empty_Environment\<close> is the zero value
  \<open>&jenkinsv1.Environment{}\<close>.
\<close>

record Environment =
  Spec_Source_URL :: string
  Spec_TeamSettings_AppsRepository :: string

definition empty_Environment :: Environment where
  "empty_Environment = \<lparr>Spec_Source_URL = [], Spec_TeamSettings_AppsRepository = []\<rparr>"

record GeneratedSecret =
  secret_Name :: string
  Key :: string
  Value :: string

text \<open>
  \<open>AddAppOptions\<close> with the fields of the embedded \<open>CommonOptions\<close> that the source
  reads (\<open>Verbose\<close>, \<open>Args\<close>). The method \<open>UseVault()\<close> of \<open>CommonOptions\<close> is
  outside the source; its result is the field \<open>UseVault\<close>, fixed for an invocation.
  A nil slice and an empty slice are both the empty list.
\<close>

record AddAppOptions =
  Verbose :: bool
  Args :: "string list"
  UseVault :: bool
  GitOps :: bool
  DevEnv :: Environment
  Repo :: string
  Username :: string
  Password :: string
  Alias :: string
  Namespace :: string
  Version :: string
  ReleaseName :: string
  SetValues :: "string list"
  ValuesFiles :: "string list"
  HelmUpdate :: bool

record InstallChartOptions =
  ico_ReleaseName :: string
  ico_Chart :: string
  ico_Version :: string
  ico_Ns :: string
  ico_HelmUpdate :: bool
  ico_SetValues :: "string list"
  ico_ValueFiles :: "string list"
  ico_Repository :: string
  ico_Username :: string
  ico_Password :: string

text \<open>
  The request that \<open>createPR\<close> hands to \<open>createEnvironmentPullRequest\<close>: the
  environment, the arguments of \<open>CreateAddRequirementFn\<close>, and the three texts.
\<close>

record EnvironmentPullRequest =
  epr_env :: Environment
  epr_app :: string
  epr_alias :: string
  epr_version :: string
  epr_repo :: string
  epr_valuesFiles :: "string list"
  epr_dir :: string
  epr_branchNameText :: string
  epr_title :: string
  epr_message :: string

datatype jxclient = JXClient nat
datatype kubeclient = KubeClient nat
datatype certclient = CertClient nat
datatype vaultclient = VaultClient nat

subsection \<open>Effects\<close>

text \<open>
  A map literal of the source is the \<open>mapping\<close> with its entries:
  \<open>map[string]interface{}{k: v}\<close> is \<open>Mapping.update k v Mapping.empty\<close>.
\<close>

text \<open>
  The world is the sequence of the effects the command has had, in order: what it logs,
  and each call that changes something outside it (the file system, the secret store,
  the cluster, the git provider), recorded when it is made, whatever it returns.
\<close>

datatype app_event =
    LogErrorf string "fmtarg list"
  | LogInfof string "fmtarg list"
  | LogWarnf string "fmtarg list"
  | CmdHelp
  | MkdirAll string nat
  | WriteFile string string nat
  | TempFile string string
  | FileWrite string string
  | FileClose string
  | DeleteFile string
  | VaultWriteMap string "(string, string) mapping"
  | EnsureHelm
  | InstallChart InstallChartOptions
  | OnInstallFromNameCall string string
  | CreateEnvironmentPullRequest EnvironmentPullRequest

type_synonym world = "app_event list"

text \<open>
  What is outside the source, as parameters. Each collaborator that reads or changes the
  outside is given the world so far, so that its answer may differ from call to call.
  \<open>FetchChart\<close> is the fetching of \<open>helm.InspectChart\<close>; \<open>Stat_IsNotExist\<close> is
  \<open>os.IsNotExist\<close> of the error of \<open>os.Stat\<close>; \<open>filepath_Join\<close> is \<open>filepath.Join\<close>.
  The last four fields are constants of the package that the source uses and does not
  declare.
\<close>

record app_ext = gits_env +
  JXClientAndDevNamespace :: "world \<Rightarrow> error + (jxclient \<times> string)"
  GetDevEnvironment :: "world \<Rightarrow> jxclient \<Rightarrow> string \<Rightarrow> error + Environment"
  KubeClientAndDevNamespace :: "world \<Rightarrow> error + (kubeclient \<times> string)"
  CreateCertManagerClient :: "world \<Rightarrow> error + certclient"
  ListApps :: "world \<Rightarrow> jxclient \<Rightarrow> string \<Rightarrow> string \<Rightarrow> error + string list"
  OnInstallFromName :: "world \<Rightarrow> string \<Rightarrow> jxclient \<Rightarrow> kubeclient \<Rightarrow> certclient \<Rightarrow> string \<Rightarrow> error option"
  JSONToYAML :: "string \<Rightarrow> error + string"
  yaml_Marshal :: "(string, GeneratedSecret list) mapping \<Rightarrow> error + string"
  filepath_Join :: "string list \<Rightarrow> string"
  TempFile_result :: "world \<Rightarrow> string \<Rightarrow> string \<Rightarrow> error + string"
  FileWrite_result :: "world \<Rightarrow> string \<Rightarrow> string \<Rightarrow> error option"
  FileClose_result :: "world \<Rightarrow> string \<Rightarrow> error option"
  DeleteFile_result :: "world \<Rightarrow> string \<Rightarrow> error option"
  MkdirAll_result :: "world \<Rightarrow> string \<Rightarrow> nat \<Rightarrow> error option"
  WriteFile_result :: "world \<Rightarrow> string \<Rightarrow> string \<Rightarrow> nat \<Rightarrow> error option"
  TeamAndEnvironmentNames :: "world \<Rightarrow> error + (string \<times> string)"
  CreateSystemVaultClient :: "world \<Rightarrow> string \<Rightarrow> error + vaultclient"
  WriteMap :: "world \<Rightarrow> vaultclient \<Rightarrow> string \<Rightarrow> (string, string) mapping \<Rightarrow> error option"
  LoadChartNameAndVersion :: "world \<Rightarrow> string \<Rightarrow> error + (string \<times> string)"
  Stat_IsNotExist :: "world \<Rightarrow> string \<Rightarrow> bool"
  ReadFile :: "world \<Rightarrow> string \<Rightarrow> error + string"
  GenerateValues :: "world \<Rightarrow> string \<Rightarrow> error + (string \<times> GeneratedSecret list)"
  FetchChart :: "world \<Rightarrow> string \<Rightarrow> string \<Rightarrow> string \<Rightarrow> string \<Rightarrow> string \<Rightarrow> error + string"
  createEnvironmentPullRequest :: "world \<Rightarrow> EnvironmentPullRequest \<Rightarrow> error + string"
  ensureHelm :: "world \<Rightarrow> error option"
  installChartOptions :: "world \<Rightarrow> InstallChartOptions \<Rightarrow> error option"
  Cmd_Help :: "world \<Rightarrow> error option"
  DEFAULT_CHARTMUSEUM_URL :: string
  DefaultNamespace :: string
  optionRelease :: string
  optionNamespace :: string

definition optionHelmUpdate :: string where "optionHelmUpdate = ''helm-update''"
definition optionValues :: string where "optionValues = ''values''"
definition optionSet :: string where "optionSet = ''set''"
definition optionAlias :: string where "optionAlias = ''alias''"
definition appsGeneratedSecretKey :: string where
  "appsGeneratedSecretKey = ''appsGeneratedSecrets''"

definition nl :: string where "nl = [CHR 0x0A]"

definition secretTemplate :: string where
  "secretTemplate = nl @
     ''{{- range .Values.generatedSecrets }}'' @ nl @
     ''apiVersion: v1'' @ nl @
     ''data:'' @ nl @
     ''  {{ .key }}: {{ .value }}'' @ nl @
     ''kind: Secret'' @ nl @
     ''metadata:'' @ nl @
     ''  name: {{ .name }} '' @ nl @
     ''type: Opaque'' @ nl @
     ''{{- end }}'' @ nl"

text \<open>What a world holds of each kind of effect.\<close>

definition vault_writes :: "world \<Rightarrow> (string \<times> (string, string) mapping) list" where
  "vault_writes w =
     concat (map (\<lambda>e. case e of VaultWriteMap p m \<Rightarrow> [(p, m)] | _ \<Rightarrow> []) w)"

definition template_files :: "world \<Rightarrow> (string \<times> string) list" where
  "template_files w =
     concat (map (\<lambda>e. case e of WriteFile n c perm \<Rightarrow> [(n, c)] | _ \<Rightarrow> []) w)"

definition values_files :: "world \<Rightarrow> (string \<times> string) list" where
  "values_files w =
     concat (map (\<lambda>e. case e of FileWrite n c \<Rightarrow> [(n, c)] | _ \<Rightarrow> []) w)"

subsection \<open>\<open>GetDevEnv\<close> and \<open>OnAppInstall\<close>\<close>

text \<open>
  \<open>CommonOptions.GetDevEnv\<close>, given \<open>o.Verbose\<close>: whether the development
  environment uses GitOps, the environment, and the world with what was logged.
\<close>

definition GetDevEnv :: "app_ext \<Rightarrow> bool \<Rightarrow> world \<Rightarrow> (bool \<times> Environment) \<times> world" where
  "GetDevEnv ext verbose w =
     (case JXClientAndDevNamespace ext w of
        Inl err \<Rightarrow>
          ((False, empty_Environment),
           (if verbose then w @ [LogErrorf (''Error loading team settings. %v'' @ nl) [E err]] else w))
      | Inr (jxClient, ns) \<Rightarrow>
          (case GetDevEnvironment ext w jxClient ns of
             Inl err \<Rightarrow>
               ((False, empty_Environment),
                w @ [LogErrorf (''Error loading team settings. %v'' @ nl) [E err]])
           | Inr devEnv \<Rightarrow>
               (let gitOps = False;
                    gitOps = (if Spec_Source_URL devEnv \<noteq> [] then True else gitOps)
                in ((gitOps, devEnv), w))))"

definition OnAppInstall :: "app_ext \<Rightarrow> string \<Rightarrow> string \<Rightarrow> world \<Rightarrow> error option \<times> world" where
  "OnAppInstall ext app version w =
     (case JXClientAndDevNamespace ext w of
        Inl err \<Rightarrow> (Some err, w)
      | Inr (jxClient, ns) \<Rightarrow>
     (case KubeClientAndDevNamespace ext w of
        Inl err \<Rightarrow> (Some err, w)
      | Inr (kubeClient, _) \<Rightarrow>
     (case CreateCertManagerClient ext w of
        Inl err \<Rightarrow> (Some err, w)
      | Inr certClient \<Rightarrow>
     (let selector = ''chart='' @ app @ ''-'' @ version
      in case ListApps ext w jxClient ns selector of
           Inl err \<Rightarrow> (Some err, w)
         | Inr items \<Rightarrow>
             if length items > 1
             then (Some (Errorf ''more than one app (%v) was found for %s'' [L items, S selector]), w)
             else if length items = 1
             then (OnInstallFromName ext w app jxClient kubeClient certClient ns,
                   w @ [OnInstallFromNameCall app ns])
             else (None, w)))))"

subsection \<open>Values and secrets\<close>

text \<open>
  The function that \<open>handleValues\<close> and \<open>handleSecrets\<close> return beside the error:
  \<open>func() {}\<close>, or the closure that closes and deletes the temporary file. The
  closure holds the file that \<open>ioutil.TempFile\<close> returned, which is nil when that call
  failed.
\<close>

datatype closer = NoClose | CloseFile "string option"

text \<open>
  Running the closure. \<open>Close\<close> on a nil file returns an error, and the warning then
  takes the name of the nil file, which panics.
\<close>

definition run_close :: "app_ext \<Rightarrow> closer \<Rightarrow> world \<Rightarrow> error option \<times> world" where
  "run_close ext c w =
     (case c of
        NoClose \<Rightarrow> (None, w)
      | CloseFile None \<Rightarrow> (Some (Panic ''invalid memory address or nil pointer dereference''), w)
      | CloseFile (Some name) \<Rightarrow>
          (let w1 = w @ [FileClose name];
               w2 = (case FileClose_result ext w name of
                       Some err \<Rightarrow> w1 @ [LogWarnf (''Error closing %s because %v'' @ nl) [S name, E err]]
                     | None \<Rightarrow> w1);
               w3 = w2 @ [DeleteFile name];
               w4 = (case DeleteFile_result ext w2 name of
                       Some err \<Rightarrow> w3 @ [LogWarnf (''Error deleting %s because %v'' @ nl) [S name, E err]]
                     | None \<Rightarrow> w3)
           in (None, w4)))"

definition handleValues ::
  "app_ext \<Rightarrow> string \<Rightarrow> string \<Rightarrow> string \<Rightarrow> AddAppOptions \<Rightarrow> world \<Rightarrow>
   (closer \<times> error option) \<times> AddAppOptions \<times> world" where
  "handleValues ext dir app vals opts w =
     (case JSONToYAML ext vals of
        Inl err \<Rightarrow>
          ((NoClose,
            Some (Wrapf err (''error converting values from json to yaml'' @ nl @ nl @ ''%v'') [S vals])),
           opts, w)
      | Inr valuesYaml \<Rightarrow>
          (let w1 = (if Verbose opts
                     then w @ [LogInfof (''Generated values.yaml:'' @ nl @ nl @ ''%v'' @ nl) [S valuesYaml]]
                     else w);
               pattern = app @ ''-values.yaml'';
               w2 = w1 @ [TempFile [] pattern]
           in case TempFile_result ext w1 [] pattern of
                Inl err \<Rightarrow> ((CloseFile None, Some err), opts, w2)
              | Inr valuesFile \<Rightarrow>
                  (let w3 = w2 @ [FileWrite valuesFile valuesYaml]
                   in case FileWrite_result ext w2 valuesFile valuesYaml of
                        Some err \<Rightarrow> ((CloseFile (Some valuesFile), Some err), opts, w3)
                      | None \<Rightarrow>
                          ((CloseFile (Some valuesFile), None),
                           opts\<lparr>ValuesFiles := ValuesFiles opts @ [valuesFile]\<rparr>, w3))))"

definition initVault :: "app_ext \<Rightarrow> AddAppOptions \<Rightarrow> world \<Rightarrow> error + (vaultclient \<times> string)" where
  "initVault ext opts w =
     (case (if GitOps opts
            then (case ParseGitURL ext (Spec_Source_URL (DevEnv opts)) of
                    Inl err \<Rightarrow> Inl err
                  | Inr gitInfo \<Rightarrow> Inr (Join [''gitOps'', Organisation gitInfo, Name gitInfo] ''/''))
            else (case TeamAndEnvironmentNames ext w of
                    Inl err \<Rightarrow> Inl err
                  | Inr (teamName, _) \<Rightarrow> Inr (Join [''teams'', teamName] ''/''))) of
        Inl err \<Rightarrow> Inl err
      | Inr vaultBasepath \<Rightarrow>
          (case CreateSystemVaultClient ext w [] of
             Inl err \<Rightarrow> Inl err
           | Inr vaultClient \<Rightarrow> Inr (vaultClient, vaultBasepath)))"

text \<open>The loop of \<open>handleSecrets\<close> over the secrets, when the vault is in use.\<close>

fun write_secrets ::
  "app_ext \<Rightarrow> vaultclient \<Rightarrow> string \<Rightarrow> GeneratedSecret list \<Rightarrow> world \<Rightarrow> error option \<times> world" where
  "write_secrets ext vaultClient vaultBasepath [] w = (None, w)"
| "write_secrets ext vaultClient vaultBasepath (secret # rest) w =
     (let path = Join [vaultBasepath, secret_Name secret] ''/'';
          content = Mapping.update (Key secret) (Value secret) Mapping.empty;
          w1 = w @ [VaultWriteMap path content]
      in case WriteMap ext w vaultClient path content of
           Some err \<Rightarrow> (Some err, w1)
         | None \<Rightarrow> write_secrets ext vaultClient vaultBasepath rest w1)"

definition handleSecrets ::
  "app_ext \<Rightarrow> string \<Rightarrow> string \<Rightarrow> GeneratedSecret list \<Rightarrow> AddAppOptions \<Rightarrow> world \<Rightarrow>
   (closer \<times> error option) \<times> AddAppOptions \<times> world" where
  "handleSecrets ext dir app secrets opts w =
     (if length secrets > 0 then
        (if UseVault opts then
           (case initVault ext opts w of
              Inl err \<Rightarrow> ((NoClose, Some err), opts, w)
            | Inr (vaultClient, vaultBasepath) \<Rightarrow>
                (case write_secrets ext vaultClient vaultBasepath secrets w of
                   (Some err, w1) \<Rightarrow> ((NoClose, Some err), opts, w1)
                 | (None, w1) \<Rightarrow> ((NoClose, None), opts, w1)))
         else
           (let templatesDir = filepath_Join ext [dir, ''templates''];
                w1 = w @ [MkdirAll templatesDir 448]
            in case MkdirAll_result ext w templatesDir 448 of
                 Some err \<Rightarrow> ((NoClose, Some err), opts, w1)
               | None \<Rightarrow>
            (let fileName = filepath_Join ext [templatesDir, ''app-generated-secret-template.yaml''];
                 w2 = w1 @ [WriteFile fileName secretTemplate 493]
             in case WriteFile_result ext w1 fileName secretTemplate 493 of
                  Some err \<Rightarrow> ((NoClose, Some err), opts, w2)
                | None \<Rightarrow>
            (let allSecrets = Mapping.update appsGeneratedSecretKey secrets Mapping.empty
             in case yaml_Marshal ext allSecrets of
                  Inl err \<Rightarrow> ((NoClose, Some err), opts, w2)
                | Inr secretsYaml \<Rightarrow>
            (let pattern = app @ ''-secrets.yaml'';
                 w3 = w2 @ [TempFile [] pattern]
             in case TempFile_result ext w2 [] pattern of
                  Inl err \<Rightarrow> ((CloseFile None, Some err), opts, w3)
                | Inr secretsFile \<Rightarrow>
            (let w4 = w3 @ [FileWrite secretsFile secretsYaml]
             in case FileWrite_result ext w3 secretsFile secretsYaml of
                  Some err \<Rightarrow> ((CloseFile (Some secretsFile), Some err), opts, w4)
                | None \<Rightarrow>
                    ((NoClose, None),
                     opts\<lparr>ValuesFiles := ValuesFiles opts @ [secretsFile]\<rparr>, w4)))))))
      else ((NoClose, None), opts, w))"

text \<open>
  (After the secrets file is written the source leaves the conditional and returns
  \<open>func() {}\<close>, not the closure: hence \<open>NoClose\<close> in the last successful branch.)
\<close>

definition generateQuestions ::
  "app_ext \<Rightarrow> string \<Rightarrow> world \<Rightarrow> error + (string \<times> GeneratedSecret list)" where
  "generateQuestions ext schema w =
     (case GenerateValues ext w schema of
        Inl err \<Rightarrow> Inl err
      | Inr (vals, secrets) \<Rightarrow> Inr (vals, secrets))"

subsection \<open>\<open>Run\<close>\<close>

text \<open>\<open>strings.Split\<close> with a separator of one byte.\<close>

fun Split :: "string \<Rightarrow> char \<Rightarrow> string list" where
  "Split [] sep = [[]]"
| "Split (c # cs) sep =
     (if c = sep then [] # Split cs sep
      else (case Split cs sep of [] \<Rightarrow> [[c]] | x # xs \<Rightarrow> (c # x) # xs))"

definition createPR ::
  "app_ext \<Rightarrow> string \<Rightarrow> string \<Rightarrow> string \<Rightarrow> AddAppOptions \<Rightarrow> world \<Rightarrow> error option \<times> world" where
  "createPR ext app dir version opts w =
     (let branchNameText = ''add-app-'' @ app @ ''-'' @ version;
          title = ''Add '' @ app @ '' '' @ version;
          message = ''Add app '' @ app @ '' '' @ version;
          req = \<lparr>epr_env = DevEnv opts, epr_app = app, epr_alias = Alias opts,
                 epr_version = version, epr_repo = Repo opts,
                 epr_valuesFiles = ValuesFiles opts, epr_dir = dir,
                 epr_branchNameText = branchNameText, epr_title = title,
                 epr_message = message\<rparr>;
          w1 = w @ [CreateEnvironmentPullRequest req]
      in case createEnvironmentPullRequest ext w req of
           Inl err \<Rightarrow> (Some (Wrapf err ''creating pr for %s'' [S app]), w1)
         | Inr url \<Rightarrow> (None, w1 @ [LogInfof (''Added app via Pull Request %s'' @ nl) [S url]]))"

definition installApp ::
  "app_ext \<Rightarrow> string \<Rightarrow> string \<Rightarrow> string \<Rightarrow> AddAppOptions \<Rightarrow> world \<Rightarrow> error option \<times> world" where
  "installApp ext name chart version opts w =
     (let w1 = w @ [EnsureHelm]
      in case ensureHelm ext w of
           Some err \<Rightarrow> (Some (Wrap err ''failed to ensure that helm is present''), w1)
         | None \<Rightarrow>
             (let setValues = concat (map (\<lambda>vs. Split vs (CHR '','')) (SetValues opts));
                  ico = \<lparr>ico_ReleaseName = name, ico_Chart = chart, ico_Version = version,
                         ico_Ns = Namespace opts, ico_HelmUpdate = HelmUpdate opts,
                         ico_SetValues = setValues, ico_ValueFiles = ValuesFiles opts,
                         ico_Repository = Repo opts, ico_Username = Username opts,
                         ico_Password = Password opts\<rparr>;
                  w2 = w1 @ [InstallChart ico]
              in case installChartOptions ext w1 ico of
                   Some err \<Rightarrow> (Some (Errorf ''failed to install name %s: %v'' [S name, E err]), w2)
                 | None \<Rightarrow> OnAppInstall ext name version w2))"

text \<open>
  The deferred calls of \<open>inspectChartFunc\<close>, in the order they run (the last deferred
  first). All of them run; a panic of one of them replaces the result.
\<close>

fun run_deferred ::
  "app_ext \<Rightarrow> closer list \<Rightarrow> error option \<times> AddAppOptions \<times> world \<Rightarrow>
   error option \<times> AddAppOptions \<times> world" where
  "run_deferred ext [] r = r"
| "run_deferred ext (c # cs) (err, opts, w) =
     (let (p, w1) = run_close ext c w
      in run_deferred ext cs ((case p of Some e \<Rightarrow> Some e | None \<Rightarrow> err), opts, w1))"

text \<open>
  The closure \<open>inspectChartFunc\<close> of \<open>Run\<close>, for the application \<open>app\<close> and the
  version \<open>version0\<close> that \<open>Run\<close> has fixed before (empty when no version was given).
  It is written in four parts, last part first: the end of the closure, which creates
  the pull request or installs the chart; the block that runs when the chart has a
  schema, with the end of the closure after it and the deferred calls around both;
  the reading of the schema, which goes on with one or the other; and the closure
  itself, which finds the version when none was given and goes on with the reading.
\<close>

definition inspectChartFunc_install ::
  "app_ext \<Rightarrow> string \<Rightarrow> string \<Rightarrow> string \<Rightarrow> AddAppOptions \<Rightarrow> world \<Rightarrow>
   error option \<times> AddAppOptions \<times> world" where
  "inspectChartFunc_install ext app dir version opts w =
     (let (err, w') = (if GitOps opts then createPR ext app dir version opts w
                       else installApp ext app dir version opts w)
      in (err, opts, w'))"

definition inspectChartFunc_schema ::
  "app_ext \<Rightarrow> string \<Rightarrow> string \<Rightarrow> string \<Rightarrow> string \<Rightarrow> string \<Rightarrow> AddAppOptions \<Rightarrow> world \<Rightarrow>
   error option \<times> AddAppOptions \<times> world" where
  "inspectChartFunc_schema ext app dir version schemaFile schema opts w1 =
     (let w2 = (if length (ValuesFiles opts) > 0
                then w1 @ [LogWarnf ''values.yaml specified by --valuesFiles will be used despite presence of schema in app'' []]
                else w1)
      in case generateQuestions ext schema w2 of
           Inl err \<Rightarrow> (Some (Wrapf err ''asking questions for schema %s'' [S schemaFile]), opts, w2)
         | Inr (vals, secrets) \<Rightarrow>
     (let ((close1, err1), opts3, w3) = handleValues ext dir app vals opts w2
      in case err1 of
           Some err \<Rightarrow> run_deferred ext [close1] (Some err, opts3, w3)
         | None \<Rightarrow>
     (let ((close2, err2), opts4, w4) = handleSecrets ext dir app secrets opts3 w3
      in case err2 of
           Some err \<Rightarrow> run_deferred ext [close2, close1] (Some err, opts4, w4)
         | None \<Rightarrow>
             run_deferred ext [close2, close1]
               (inspectChartFunc_install ext app dir version opts4 w4))))"

definition inspectChartFunc_inspect ::
  "app_ext \<Rightarrow> string \<Rightarrow> string \<Rightarrow> string \<Rightarrow> AddAppOptions \<Rightarrow> world \<Rightarrow>
   error option \<times> AddAppOptions \<times> world" where
  "inspectChartFunc_inspect ext app dir version opts w1 =
     (let schemaFile = filepath_Join ext [dir, ''values.schema.json'']
      in case (if \<not> Stat_IsNotExist ext w1 schemaFile
               then (case ReadFile ext w1 schemaFile of
                       Inl err \<Rightarrow> Inl (Wrapf err ''error reading schema file %s'' [S schemaFile])
                     | Inr content \<Rightarrow> Inr (Some content))
               else Inr None) of
           Inl err \<Rightarrow> (Some err, opts, w1)
         | Inr None \<Rightarrow> inspectChartFunc_install ext app dir version opts w1
         | Inr (Some schema) \<Rightarrow>
             inspectChartFunc_schema ext app dir version schemaFile schema opts w1)"

definition inspectChartFunc ::
  "app_ext \<Rightarrow> string \<Rightarrow> string \<Rightarrow> string \<Rightarrow> AddAppOptions \<Rightarrow> world \<Rightarrow>
   error option \<times> AddAppOptions \<times> world" where
  "inspectChartFunc ext app version0 dir opts w =
     (if version0 = []
      then (case LoadChartNameAndVersion ext w (filepath_Join ext [dir, ''Chart.yaml'']) of
              Inl err \<Rightarrow> (Some (Wrapf err ''error loading chart from %s'' [S dir]), opts, w)
            | Inr (_, version) \<Rightarrow>
                inspectChartFunc_inspect ext app dir version opts
                  (if Verbose opts
                   then w @ [LogInfof (''No version specified so using latest version which is %s'' @ nl) [S version]]
                   else w))
      else inspectChartFunc_inspect ext app dir version0 opts w)"

text \<open>
  \<open>helm.InspectChart\<close> is outside the source. It is taken as the fetching of the
  chart, which is the parameter \<open>FetchChart\<close>, followed by one call of the closure on the
  directory that the fetching gives; when the fetching fails the closure is not called.
\<close>

definition InspectChart ::
  "app_ext \<Rightarrow> string \<Rightarrow> string \<Rightarrow> string \<Rightarrow> string \<Rightarrow> string \<Rightarrow>
   (string \<Rightarrow> AddAppOptions \<Rightarrow> world \<Rightarrow> error option \<times> AddAppOptions \<times> world) \<Rightarrow>
   AddAppOptions \<Rightarrow> world \<Rightarrow> error option \<times> AddAppOptions \<times> world" where
  "InspectChart ext chart version repo username password inspector opts w =
     (case FetchChart ext w chart version repo username password of
        Inl err \<Rightarrow> (Some err, opts, w)
      | Inr dir \<Rightarrow> inspector dir opts w)"

text \<open>
  The checks of \<open>Run\<close> on the options, once \<open>GitOps\<close> and \<open>Repo\<close> are set: the
  error of the first check that fails, in the order of the source.
\<close>

definition Run_invalid :: "app_ext \<Rightarrow> AddAppOptions \<Rightarrow> error option" where
  "Run_invalid ext opts =
     (let msg = ''unable to specify --%s when using GitOps for your dev environment''
      in if GitOps opts then
           (if ReleaseName opts \<noteq> []
            then Some (InvalidOptionf (optionRelease ext) (S (ReleaseName opts)) msg [S (optionRelease ext)])
            else if \<not> HelmUpdate opts
            then Some (InvalidOptionf optionHelmUpdate (B (HelmUpdate opts)) msg [S optionHelmUpdate])
            else if Namespace opts \<noteq> [] \<and> Namespace opts \<noteq> DefaultNamespace ext
            then Some (InvalidOptionf (optionNamespace ext) (S (Namespace opts)) msg [S (optionNamespace ext)])
            else if length (SetValues opts) > 0
            then Some (InvalidOptionf optionSet (L (SetValues opts)) msg [S optionSet])
            else if length (ValuesFiles opts) > 1
            then Some (InvalidOptionf optionValues (L (SetValues opts))
                         ''no more than one --%s can be specified when using GitOps for your dev environment''
                         [S optionValues])
            else if \<not> UseVault opts
            then Some (Errorf ''cannot install apps without a vault when using GitOps for your dev environment'' [])
            else None)
         else
           (if Alias opts \<noteq> []
            then Some (InvalidOptionf optionAlias (S (Alias opts))
                         ''unable to specify --%s when NOT using GitOps for your dev environment''
                         [S optionAlias])
            else None))"

text \<open>
  \<open>AddAppOptions.Run\<close>: the error, the options as it leaves them, and the world.
\<close>

definition AddAppOptions_Run ::
  "app_ext \<Rightarrow> AddAppOptions \<Rightarrow> world \<Rightarrow> error option \<times> AddAppOptions \<times> world" where
  "AddAppOptions_Run ext o0 w0 =
     (let ((gitOps, devEnv), w1) = GetDevEnv ext (Verbose o0) w0;
          o1 = o0\<lparr>GitOps := gitOps, DevEnv := devEnv\<rparr>;
          o2 = (if Repo o1 = [] then o1\<lparr>Repo := Spec_TeamSettings_AppsRepository (DevEnv o1)\<rparr> else o1);
          o3 = (if Repo o2 = [] then o2\<lparr>Repo := DEFAULT_CHARTMUSEUM_URL ext\<rparr> else o2)
      in case Run_invalid ext o3 of
           Some err \<Rightarrow> (Some err, o3, w1)
         | None \<Rightarrow>
             (case Args o3 of
                [app] \<Rightarrow>
                  if Repo o3 = [] then (Some (Errorf ''must specify a repository'' []), o3, w1)
                  else InspectChart ext app (Version o3) (Repo o3) (Username o3) (Password o3)
                         (inspectChartFunc ext app (Version o3)) o3 w1
              | _ \<Rightarrow> (Cmd_Help ext w1, o3, w1 @ [CmdHelp])))"

text \<open>
  The effects of the branch of \<open>handleSecrets\<close> that writes the template into the
  chart: \<open>os.MkdirAll\<close> and \<open>ioutil.WriteFile\<close>, which the source calls nowhere else.
\<close>

definition template_effects :: "world \<Rightarrow> app_event list" where
  "template_effects w =
     filter (\<lambda>e. case e of MkdirAll d perm \<Rightarrow> True | WriteFile n c perm \<Rightarrow> True | _ \<Rightarrow> False) w"

text \<open>The call of \<open>vault.WriteMap\<close> that the loop of \<open>handleSecrets\<close> makes for a secret.\<close>

definition secret_event :: "string \<Rightarrow> GeneratedSecret \<Rightarrow> app_event" where
  "secret_event base s =
     VaultWriteMap (Join [base, secret_Name s] ''/'') (Mapping.update (Key s) (Value s) Mapping.empty)"

text \<open>
  The normal form of a label's key: letters and digits, and single underscores that are
  followed by a letter or digit or stand at the end.
\<close>

fun squeezed :: "string \<Rightarrow> bool" where
  "squeezed [] = True"
| "squeezed (c # cs) =
     (if alnum c then squeezed cs
      else c = CHR ''_'' \<and> (case cs of [] \<Rightarrow> True | d # ds \<Rightarrow> alnum d) \<and> squeezed cs)"

section \<open>Example inputs\<close>

text \<open>
  Concrete inputs at which the theorems below are instantiated: a provider that knows
  pull request 34 with two labels, an environment with or without \<open>BRANCH_NAME\<close>, and
  collaborators of \<open>jx add app\<close> that all succeed.
\<close>

definition example_repo :: GitRepository where
  "example_repo = \<lparr>Organisation = ''acme'', Name = ''shop''\<rparr>"

definition example_provider :: GitProvider where
  "example_provider org gi n =
     (if n = 34
      then Inr \<lparr>Labels = [\<lparr>label_Name = Some ''bug''\<rparr>, \<lparr>label_Name = Some ''kind/feature''\<rparr>]\<rparr>
      else Inl (External ''404 Not Found''))"

definition example_labels_env :: "string option \<Rightarrow> labels_env" where
  "example_labels_env branch =
     \<lparr>ParseGitURL = (\<lambda>u. Inl (External ''unparsable'')),
      CreateGitProvider = (\<lambda>d. Inr (example_repo, Some example_provider)),
      environ = (\<lambda>k. if k = ''BRANCH_NAME'' then branch else None)\<rparr>"

definition example_labels_options :: "string \<Rightarrow> StepPRLabelsOptions" where
  "example_labels_options pr = \<lparr>Dir = [], Prefix = [], PullRequest = pr, GitURL = []\<rparr>"

definition example_validate :: "bool \<Rightarrow> StepCreatePrOptions \<Rightarrow> error option \<times> StepCreatePrOptions" where
  "example_validate b p = (None, p)"

definition example_regex_options :: "string \<Rightarrow> StepCreatePullRequestRegexOptions" where
  "example_regex_options r =
     \<lparr>PrOptions = \<lparr>SrcGitURL = []\<rparr>, Regexp = r, Files = [''config.toml''], Kind = []\<rparr>"

definition example_secrets :: "GeneratedSecret list" where
  "example_secrets =
     [\<lparr>secret_Name = ''db'', Key = ''password'', Value = ''s3cr3t''\<rparr>,
      \<lparr>secret_Name = ''api'', Key = ''token'', Value = ''t0k3n''\<rparr>]"

definition example_ext :: app_ext where
  "example_ext =
     \<lparr>ParseGitURL = (\<lambda>u. Inr \<lparr>Organisation = ''acme'', Name = ''env-dev''\<rparr>),
      JXClientAndDevNamespace = (\<lambda>w. Inr (JXClient 0, ''jx'')),
      GetDevEnvironment = (\<lambda>w c ns. Inr \<lparr>Spec_Source_URL = ''https://github.com/acme/env-dev.git'',
                                             Spec_TeamSettings_AppsRepository = []\<rparr>),
      KubeClientAndDevNamespace = (\<lambda>w. Inr (KubeClient 0, ''jx'')),
      CreateCertManagerClient = (\<lambda>w. Inr (CertClient 0)),
      ListApps = (\<lambda>w c ns selector. Inr []),
      OnInstallFromName = (\<lambda>w app j k c ns. None),
      JSONToYAML = (\<lambda>v. Inr v),
      yaml_Marshal = (\<lambda>m. Inr ''appsGeneratedSecrets: []''),
      filepath_Join = (\<lambda>xs. Join xs ''/''),
      TempFile_result = (\<lambda>w dir pattern. Inr (''/tmp/'' @ pattern)),
      FileWrite_result = (\<lambda>w n c. None),
      FileClose_result = (\<lambda>w n. None),
      DeleteFile_result = (\<lambda>w n. None),
      MkdirAll_result = (\<lambda>w d p. None),
      WriteFile_result = (\<lambda>w n c p. None),
      TeamAndEnvironmentNames = (\<lambda>w. Inr (''myteam'', ''dev'')),
      CreateSystemVaultClient = (\<lambda>w n. Inr (VaultClient 0)),
      WriteMap = (\<lambda>w c p m. None),
      LoadChartNameAndVersion = (\<lambda>w p. Inr (''myapp'', ''1.0.0'')),
      Stat_IsNotExist = (\<lambda>w p. False),
      ReadFile = (\<lambda>w p. Inr ''schema''),
      GenerateValues = (\<lambda>w s. Inr (''values'', example_secrets)),
      FetchChart = (\<lambda>w c v r u p. Inr ''/tmp/chart''),
      createEnvironmentPullRequest = (\<lambda>w r. Inr ''https://github.com/acme/env-dev/pull/1''),
      ensureHelm = (\<lambda>w. None),
      installChartOptions = (\<lambda>w i. None),
      Cmd_Help = (\<lambda>w. None),
      DEFAULT_CHARTMUSEUM_URL = ''http://chartmuseum.jenkins-x.io'',
      DefaultNamespace = ''jx'',
      optionRelease = ''release'',
      optionNamespace = ''namespace''\<rparr>"

definition example_options :: "bool \<Rightarrow> bool \<Rightarrow> AddAppOptions" where
  "example_options gitOps useVault =
     \<lparr>Verbose = False, Args = [''myapp''], UseVault = useVault, GitOps = gitOps,
      DevEnv = \<lparr>Spec_Source_URL = ''https://github.com/acme/env-dev.git'',
                 Spec_TeamSettings_AppsRepository = []\<rparr>,
      Repo = [], Username = [], Password = [], Alias = [], Namespace = [],
      Version = [], ReleaseName = [], SetValues = [], ValuesFiles = [], HelmUpdate = True\<rparr>"

section \<open>Properties of the label command\<close>

subsection \<open>The key of a label\<close>

lemma upper_char_lower:
  assumes "97 \<le> (of_char c :: nat)" "(of_char c :: nat) \<le> 122"
  shows "(of_char (upper_char c) :: nat) = of_char c - 32"
proof -
  have "upper_char c = char_of ((of_char c :: nat) - 32)"
    using assms by (simp add: upper_char_def)
  moreover have "((of_char c :: nat) - 32) mod 256 = of_char c - 32"
    using assms by simp
  ultimately show ?thesis by simp
qed

lemma upper_char_other:
  "\<not> (97 \<le> (of_char c :: nat) \<and> (of_char c :: nat) \<le> 122) \<Longrightarrow> upper_char c = c"
  by (auto simp add: upper_char_def)

lemma alnum_upper_char: "alnum (upper_char c) = alnum c"
proof (cases "97 \<le> (of_char c :: nat) \<and> (of_char c :: nat) \<le> 122")
  case True
  then have "(of_char (upper_char c) :: nat) = of_char c - 32"
    by (simp add: upper_char_lower)
  with True show ?thesis by (auto simp add: alnum_def Let_def)
next
  case False
  then show ?thesis by (simp add: upper_char_other)
qed

lemma upper_char_idem: "upper_char (upper_char c) = upper_char c"
proof (cases "97 \<le> (of_char c :: nat) \<and> (of_char c :: nat) \<le> 122")
  case True
  then have "(of_char (upper_char c) :: nat) = of_char c - 32"
    by (simp add: upper_char_lower)
  with True have "\<not> (97 \<le> (of_char (upper_char c) :: nat) \<and> (of_char (upper_char c) :: nat) \<le> 122)"
    by auto
  then show ?thesis by (rule upper_char_other)
next
  case False
  then show ?thesis by (simp add: upper_char_other)
qed

lemma upper_char_fix: "\<not> alnum c \<Longrightarrow> upper_char c = c"
  by (rule upper_char_other) (auto simp: alnum_def)

lemma not_alnum_underscore: "\<not> alnum (CHR ''_'')"
  by (simp add: alnum_def)

lemma Replace_head: "ReplaceAllString (dropWhile (\<lambda>d. \<not> alnum d) cs) r = [] \<or>
   (\<exists>d ds. ReplaceAllString (dropWhile (\<lambda>d. \<not> alnum d) cs) r = d # ds \<and> alnum d)"
proof (cases "dropWhile (\<lambda>d. \<not> alnum d) cs")
  case Nil then show ?thesis by (simp only: ReplaceAllString.simps simp_thms)
next
  case (Cons d ds)
  then have "alnum d" using hd_dropWhile[of "\<lambda>d. \<not> alnum d" cs] by auto
  with Cons show ?thesis by simp
qed

lemma squeezed_Replace: "squeezed (ReplaceAllString s ''_'')"
proof (induction s "''_''" rule: ReplaceAllString.induct)
  case 1 show ?case by simp
next
  case (2 c cs)
  show ?case
  proof (cases "alnum c")
    case True with 2 show ?thesis by simp
  next
    case False
    with 2 have ih: "squeezed (ReplaceAllString (dropWhile (\<lambda>d. \<not> alnum d) cs) ''_'')" by simp
    from Replace_head[of cs "''_''"] ih False show ?thesis
      by (auto simp: not_alnum_underscore)
  qed
qed

lemma Replace_squeezed: "squeezed s \<Longrightarrow> ReplaceAllString s ''_'' = s"
proof (induction s)
  case Nil show ?case by simp
next
  case (Cons c cs)
  show ?case
  proof (cases "alnum c")
    case True with Cons show ?thesis by simp
  next
    case False
    with Cons.prems have c: "c = CHR ''_''" and h: "(case cs of [] \<Rightarrow> True | d # ds \<Rightarrow> alnum d)" and s: "squeezed cs"
      by auto
    from h have "dropWhile (\<lambda>d. \<not> alnum d) cs = cs" by (cases cs) auto
    with False c s Cons.IH show ?thesis by simp
  qed
qed

lemma squeezed_ToUpper: "squeezed s \<Longrightarrow> squeezed (ToUpper s)"
proof (induction s)
  case Nil show ?case by (simp add: ToUpper_def)
next
  case (Cons c cs)
  then show ?case
    by (cases cs) (auto simp: ToUpper_def alnum_upper_char upper_char_fix not_alnum_underscore split: if_splits)
qed

lemma ToUpper_idem: "ToUpper (ToUpper s) = ToUpper s"
  by (simp add: ToUpper_def upper_char_idem)

lemma ReplaceAllString_ascii:
  "list_all (\<lambda>c. alnum c \<or> c = CHR ''_'') (ReplaceAllString s ''_'')"
  by (induction s "''_''" rule: ReplaceAllString.induct) simp_all

text \<open>
  C5. The normalisation of a label's name for its environment key (every run of
  characters that are not letters or digits replaced by one underscore, then upper case)
  is a function of the name alone, defined on every name, and applying it twice gives
  what applying it once gives.
\<close>

theorem label_key_idempotent:
  "ToUpper (envKey (ToUpper (envKey x))) = ToUpper (envKey x)"
proof -
  have "squeezed (ToUpper (envKey x))"
    unfolding envKey_def by (rule squeezed_ToUpper) (rule squeezed_Replace)
  then have "envKey (ToUpper (envKey x)) = ToUpper (envKey x)"
    unfolding envKey_def by (rule Replace_squeezed)
  then show ?thesis by (simp add: ToUpper_idem)
qed

subsection \<open>The number of the pull request\<close>

lemma Atoi_34: "Atoi ''34'' = (34, None)"
  by (simp add: Atoi_def ParseUint_def is_digit_def maxUint64_def)

lemma Atoi_PR34: "Atoi ''PR-34'' = (0, Some (ErrSyntax ''PR-34''))"
  by (simp add: Atoi_def ParseUint_def is_digit_def)

lemma lookups_append: "lookups (a @ b) = lookups a @ lookups b"
  by (induction a rule: lookups.induct) simp_all

lemma warnings_append: "warnings (a @ b) = warnings a @ warnings b"
  by (induction a rule: warnings.induct) simp_all

lemma print_labels_quiet:
  "lookups (snd (print_labels p ls)) = [] \<and> warnings (snd (print_labels p ls)) = []"
  by (induction ls) (auto split: option.splits prod.splits)




lemma Run_unfold:
  assumes "CreateGitProvider env (Dir o0) = Inr (gitInfo, Some prov)"
      and "o1 = (if PullRequest o0 = []
                 then o0\<lparr>PullRequest := TrimPrefix (Getenv env ''BRANCH_NAME'') ''PR-''\<rparr>
                 else o0)"
      and "o2 = (if Prefix o1 = [] then o1\<lparr>Prefix := DefaultPrefix\<rparr> else o1)"
  shows "StepPRLabelsOptions_Run env o0 =
     (if PullRequest o1 = [] then (Some (MissingOption ''pr''), o1, [])
      else
          (let (prNum, aerr) = Atoi (PullRequest o2);
               warn = (case aerr of
                         None \<Rightarrow> []
                       | Some _ \<Rightarrow> [Warn (''Unable to convert PR '' @ PullRequest o2 @ '' to a number'')])
           in case (if GitURL o2 \<noteq> []
                    then (case ParseGitURL env (GitURL o2) of
                            Inl e \<Rightarrow> Inl (Wrapf e ''parsing %s'' [S (GitURL o2)])
                          | Inr gi \<Rightarrow> Inr gi)
                    else Inr gitInfo) of
                Inl e \<Rightarrow> (Some e, o2, warn)
              | Inr gi \<Rightarrow>
                  (case prov (Organisation gi) gi prNum of
                     Inl e \<Rightarrow>
                       (Some (Wrapf e ''failed to find PullRequest %d'' [I prNum]), o2,
                        warn @ [GetPullRequestCall (Organisation gi) gi prNum])
                   | Inr pr \<Rightarrow>
                       (let (err, evs) = print_labels (Prefix o2) (Labels pr)
                        in (err, o2,
                            warn @ [GetPullRequestCall (Organisation gi) gi prNum] @ evs)))))"
  unfolding StepPRLabelsOptions_Run_def assms(1) assms(2) [symmetric]
  apply (simp only: sum.case prod.case option.case Let_def [of o1])
  unfolding assms(3) [symmetric]
  apply (simp only: Let_def [of o2])
  done

lemma print_labels_err:
  "fst (print_labels p ls) = None \<or> fst (print_labels p ls) = Some (Panic ''nil pointer dereference'')"
  by (induction ls) (auto simp: case_prod_beta split: option.splits)

lemma print_labels_not_missing: "fst (print_labels p ls) \<noteq> Some (MissingOption x)"
  using print_labels_err [of p ls] by auto

lemma Atoi_12: "Atoi ''12'' = (12, None)"
  by (simp add: Atoi_def ParseUint_def is_digit_def maxUint64_def)

lemma Atoi_master: "Atoi ''master'' = (0, Some (ErrSyntax ''master''))"
  by (simp add: Atoi_def ParseUint_def is_digit_def)

text \<open>
  Twenty nines do not fit 64 bits: \<open>ParseUint\<close> stops at the digit that overflows, so
  what follows it is not read, and \<open>Atoi\<close> returns the largest \<open>int\<close> with a range error.
\<close>

lemma Atoi_overflow_before_letter:
  "Atoi ''99999999999999999999x'' = (9223372036854775807, Some (ErrRange ''99999999999999999999x''))"
  by (simp add: Atoi_def ParseUint_def is_digit_def maxUint64_def)

lemma Atoi_failed:
  "snd (Atoi s) \<noteq> None \<Longrightarrow>
     fst (Atoi s) = 0 \<or> fst (Atoi s) = 2 ^ 63 - 1 \<or> fst (Atoi s) = - (2 ^ 63)"
  by (auto simp: Atoi_def Let_def split: list.splits uint_result.splits if_splits)

lemma Atoi_syntax:
  "snd (Atoi s) = Some (ErrSyntax s') \<Longrightarrow> fst (Atoi s) = 0"
  by (auto simp: Atoi_def Let_def split: list.splits uint_result.splits if_splits)

text \<open>
  C3. Once the git provider is found, the identifier of the pull request is the value of
  \<open>--pr\<close> when that is given, whatever the environment holds, and \<open>BRANCH_NAME\<close> with a
  leading \<open>PR-\<close> removed otherwise; \<open>Run\<close> leaves it in the option. When the flag is not
  given and the variable is not set or empty the identifier is empty, and with an empty
  identifier \<open>Run\<close> fails with \<open>MissingOption\<close> for \<open>pr\<close> and has done nothing. With an
  identifier that is not empty \<open>Run\<close> does not fail with \<open>MissingOption\<close>: it parses
  that identifier, warns when \<open>Atoi\<close> rejects it and, unless the URL given for the
  repository cannot be parsed, asks the provider once, for the number that \<open>Atoi\<close> gave.
\<close>

theorem pr_number_resolution:
  assumes "CreateGitProvider env (Dir o0) = Inr (gitInfo, Some prov)"
      and "pr = (if PullRequest o0 \<noteq> [] then PullRequest o0
                 else TrimPrefix (Getenv env ''BRANCH_NAME'') ''PR-'')"
  shows "PullRequest (fst (snd (StepPRLabelsOptions_Run env o0))) = pr
       \<and> (PullRequest o0 = []
            \<and> (environ env ''BRANCH_NAME'' = None \<or> environ env ''BRANCH_NAME'' = Some [])
          \<longrightarrow> pr = [])
       \<and> (pr = [] \<longrightarrow>
            fst (StepPRLabelsOptions_Run env o0) = Some (MissingOption ''pr'')
          \<and> snd (snd (StepPRLabelsOptions_Run env o0)) = [])
       \<and> (pr \<noteq> [] \<longrightarrow>
            fst (StepPRLabelsOptions_Run env o0) \<noteq> Some (MissingOption ''pr'')
          \<and> warnings (snd (snd (StepPRLabelsOptions_Run env o0)))
              = (if snd (Atoi pr) = None then []
                 else [''Unable to convert PR '' @ pr @ '' to a number''])
          \<and> lookups (snd (snd (StepPRLabelsOptions_Run env o0)))
              = (if GitURL o0 = [] \<or> (\<exists>gi. ParseGitURL env (GitURL o0) = Inr gi)
                 then [fst (Atoi pr)] else []))"
proof -
  define o1 where "o1 = (if PullRequest o0 = []
                 then o0\<lparr>PullRequest := TrimPrefix (Getenv env ''BRANCH_NAME'') ''PR-''\<rparr>
                 else o0)"
  define o2 where "o2 = (if Prefix o1 = [] then o1\<lparr>Prefix := DefaultPrefix\<rparr> else o1)"
  note run = Run_unfold [OF assms(1) o1_def o2_def]
  have p1: "PullRequest o1 = pr"
    by (simp add: o1_def assms(2))
  have p2: "PullRequest o2 = pr" and g2: "GitURL o2 = GitURL o0"
    by (simp_all add: o2_def o1_def assms(2))
  have opts: "fst (snd (StepPRLabelsOptions_Run env o0)) = (if PullRequest o1 = [] then o1 else o2)"
    unfolding run by (simp add: case_prod_beta Let_def split: sum.split option.split)
  have resolved: "PullRequest (fst (snd (StepPRLabelsOptions_Run env o0))) = pr"
    by (simp add: opts p1 p2)
  have absent: "PullRequest o0 = []
      \<and> (environ env ''BRANCH_NAME'' = None \<or> environ env ''BRANCH_NAME'' = Some []) \<longrightarrow> pr = []"
    by (auto simp: assms(2) Getenv_def TrimPrefix_def HasPrefix_def)
  have missing: "pr = [] \<longrightarrow>
      fst (StepPRLabelsOptions_Run env o0) = Some (MissingOption ''pr'')
      \<and> snd (snd (StepPRLabelsOptions_Run env o0)) = []"
    unfolding run p1 by simp
  obtain n aerr where a: "Atoi pr = (n, aerr)"
    by (cases "Atoi pr")
  have found: "pr \<noteq> [] \<longrightarrow> fst (StepPRLabelsOptions_Run env o0) \<noteq> Some (MissingOption ''pr'')"
    unfolding run p1 p2 g2 a
    by (simp add: Let_def case_prod_beta print_labels_not_missing split: sum.split option.split)
  have warned: "pr \<noteq> [] \<longrightarrow> warnings (snd (snd (StepPRLabelsOptions_Run env o0)))
      = (if aerr = None then [] else [''Unable to convert PR '' @ pr @ '' to a number''])"
    unfolding run p1 p2 g2 a
    by (simp add: Let_def warnings_append print_labels_quiet case_prod_beta split: sum.split option.split)
  have looked: "pr \<noteq> [] \<longrightarrow> lookups (snd (snd (StepPRLabelsOptions_Run env o0)))
      = (if GitURL o0 = [] \<or> (\<exists>gi. ParseGitURL env (GitURL o0) = Inr gi) then [n] else [])"
    unfolding run p1 p2 g2 a
    by (auto simp add: Let_def lookups_append print_labels_quiet case_prod_beta split: sum.split option.split)
  from resolved absent missing found warned looked a show ?thesis
    by simp
qed

theorem pr_number_resolution_witness:
  "CreateGitProvider (example_labels_env (Some ''PR-34'')) (Dir (example_labels_options []))
     = Inr (example_repo, Some example_provider)
   \<and> PullRequest (fst (snd (StepPRLabelsOptions_Run (example_labels_env (Some ''PR-34''))
                               (example_labels_options [])))) = ''34''
   \<and> lookups (snd (snd (StepPRLabelsOptions_Run (example_labels_env (Some ''PR-34''))
                           (example_labels_options [])))) = [34]
   \<and> PullRequest (fst (snd (StepPRLabelsOptions_Run (example_labels_env (Some ''PR-34''))
                               (example_labels_options ''12'')))) = ''12''
   \<and> lookups (snd (snd (StepPRLabelsOptions_Run (example_labels_env (Some ''PR-34''))
                           (example_labels_options ''12'')))) = [12]
   \<and> fst (StepPRLabelsOptions_Run (example_labels_env None) (example_labels_options []))
       = Some (MissingOption ''pr'')
   \<and> snd (snd (StepPRLabelsOptions_Run (example_labels_env None) (example_labels_options []))) = []
   \<and> fst (StepPRLabelsOptions_Run (example_labels_env (Some ''master'')) (example_labels_options []))
       \<noteq> Some (MissingOption ''pr'')
   \<and> warnings (snd (snd (StepPRLabelsOptions_Run (example_labels_env (Some ''master''))
                            (example_labels_options []))))
       = [''Unable to convert PR master to a number'']
   \<and> lookups (snd (snd (StepPRLabelsOptions_Run (example_labels_env (Some ''master''))
                           (example_labels_options [])))) = [0]"
  using pr_number_resolution [of "example_labels_env (Some ''PR-34'')" "example_labels_options []"
           example_repo example_provider "''34''"]
        pr_number_resolution [of "example_labels_env (Some ''PR-34'')" "example_labels_options ''12''"
           example_repo example_provider "''12''"]
        pr_number_resolution [of "example_labels_env None" "example_labels_options []"
           example_repo example_provider "[]"]
        pr_number_resolution [of "example_labels_env (Some ''master'')" "example_labels_options []"
           example_repo example_provider "''master''"]
  by (simp add: example_labels_options_def example_labels_env_def TrimPrefix_def HasPrefix_def
        Getenv_def Atoi_34 Atoi_12 Atoi_master)

text \<open>
  C1 at \<open>--pr PR-34\<close>. The prefix is removed from the value of \<open>BRANCH_NAME\<close> only,
  not from the value of \<open>--pr\<close>: \<open>Atoi\<close> rejects \<open>PR-34\<close>, the warning is logged and the
  provider is asked for pull request 0, which it does not find, where the claim requires
  34; \<open>--pr 34\<close>, and \<open>BRANCH_NAME\<close> set to \<open>PR-34\<close> with no flag, both ask for 34. The
  lookup takes a number: after a failed parse it is given the number that \<open>Atoi\<close> returned
  (\<open>Atoi_failed\<close>), not the text of the identifier.
\<close>

theorem pr_flag_prefix_not_trimmed:
  "snd (snd (StepPRLabelsOptions_Run (example_labels_env None) (example_labels_options ''PR-34'')))
     = [Warn ''Unable to convert PR PR-34 to a number'', GetPullRequestCall ''acme'' example_repo 0]
   \<and> fst (StepPRLabelsOptions_Run (example_labels_env None) (example_labels_options ''PR-34''))
     = Some (Wrapf (External ''404 Not Found'') ''failed to find PullRequest %d'' [I 0])
   \<and> lookups (snd (snd (StepPRLabelsOptions_Run (example_labels_env None)
                           (example_labels_options ''PR-34'')))) \<noteq> [34]
   \<and> lookups (snd (snd (StepPRLabelsOptions_Run (example_labels_env None)
                           (example_labels_options ''34'')))) = [34]
   \<and> lookups (snd (snd (StepPRLabelsOptions_Run (example_labels_env (Some ''PR-34''))
                           (example_labels_options [])))) = [34]"
  by (simp add: StepPRLabelsOptions_Run_def example_labels_env_def example_labels_options_def
        example_repo_def example_provider_def Atoi_34 Atoi_PR34 Let_def
        TrimPrefix_def HasPrefix_def Getenv_def)

subsection \<open>The output\<close>

text \<open>
  For labels that all have a name, the loop prints the text of each label, with the
  prefix, the key and the name, one after the other.
\<close>

lemma print_labels_named:
  "print_labels p (map (\<lambda>n. \<lparr>label_Name = Some n\<rparr>) names)
     = (None, map (\<lambda>n. Printf (label_line p n)) names)"
  by (induction names) simp_all

lemma stdout_printed: "stdout (map (\<lambda>n. Printf (f n)) names) = concat (map f names)"
  by (induction names) simp_all

lemma line_bug:
  "label_line DefaultPrefix ''bug'' = ''JX_PR_LABELS_BUG='' @ [CHR 0x27] @ ''bug'' @ [CHR 0x27]"
  by code_simp

lemma line_kind:
  "label_line DefaultPrefix ''kind/feature''
     = ''JX_PR_LABELS_KIND_FEATURE='' @ [CHR 0x27] @ ''kind/feature'' @ [CHR 0x27]"
  by code_simp

lemma example_run_stdout:
  "stdout (snd (snd (StepPRLabelsOptions_Run (example_labels_env None) (example_labels_options ''34''))))
     = label_line DefaultPrefix ''bug'' @ label_line DefaultPrefix ''kind/feature''"
  by (simp add: StepPRLabelsOptions_Run_def example_labels_env_def example_labels_options_def
        example_repo_def example_provider_def Atoi_34 Let_def)

text \<open>
  C4 at a pull request with the labels \<open>bug\<close> and \<open>kind/feature\<close> and no \<open>--prefix\<close>:
  the two assignments are printed one after the other with nothing between them, and
  standard output holds no line break at all, so it is not one line for each label.
\<close>

theorem labels_printed_without_newline:
  "stdout (snd (snd (StepPRLabelsOptions_Run (example_labels_env None) (example_labels_options ''34''))))
     = ''JX_PR_LABELS_BUG='' @ [CHR 0x27] @ ''bug'' @ [CHR 0x27]
       @ ''JX_PR_LABELS_KIND_FEATURE='' @ [CHR 0x27] @ ''kind/feature'' @ [CHR 0x27]
   \<and> CHR 0x0A \<notin> set (stdout (snd (snd (StepPRLabelsOptions_Run (example_labels_env None)
                                          (example_labels_options ''34'')))))"
  unfolding example_run_stdout line_bug line_kind by simp

section \<open>Properties of the validation of the regex command\<close>

text \<open>
  C7. When the options of the embedded command are valid and a pattern is given,
  validation succeeds and leaves the pattern as it is when it starts with \<open>(?m\<close>, and
  puts \<open>(?m)\<close> in front of it otherwise.
\<close>

theorem regex_forced_multiline:
  assumes "fst (ValidateOptions False (PrOptions o0)) = None" and "Regexp o0 \<noteq> []"
  shows "fst (ValidateRegexOptions ValidateOptions o0) = None
       \<and> Regexp (fst (snd (ValidateRegexOptions ValidateOptions o0)))
           = (if HasPrefix (Regexp o0) ''(?m'' then Regexp o0 else ''(?m)'' @ Regexp o0)"
  using assms
  by (auto simp: ValidateRegexOptions_def Let_def split: prod.splits option.splits)

theorem regex_forced_multiline_witness:
  "fst (example_validate False (PrOptions (example_regex_options ''release = (.*)''))) = None
   \<and> Regexp (example_regex_options ''release = (.*)'') \<noteq> []
   \<and> Regexp (fst (snd (ValidateRegexOptions example_validate (example_regex_options ''release = (.*)''))))
       = ''(?m)release = (.*)''
   \<and> Regexp (fst (snd (ValidateRegexOptions example_validate (example_regex_options ''(?ms)^a.*b$''))))
       = ''(?ms)^a.*b$''"
  using regex_forced_multiline [of example_validate "example_regex_options ''release = (.*)''"]
        regex_forced_multiline [of example_validate "example_regex_options ''(?ms)^a.*b$''"]
  by (simp add: example_regex_options_def example_validate_def HasPrefix_def)

section \<open>Properties of \<open>jx add app\<close>\<close>

subsection \<open>\<open>GetDevEnv\<close>\<close>

text \<open>
  C8. \<open>GetDevEnv\<close> returns a flag and an environment and no error. When the client and
  namespace cannot be loaded, or the development environment cannot, the flag is false
  and the environment is the empty one; otherwise the environment is the one loaded and
  the flag says whether its \<open>Spec.Source.URL\<close> is not empty.
\<close>

theorem GetDevEnv_result:
  "(JXClientAndDevNamespace ext w = Inl e \<longrightarrow>
      fst (GetDevEnv ext verbose w) = (False, empty_Environment))
   \<and> (JXClientAndDevNamespace ext w = Inr (jxClient, ns) \<and> GetDevEnvironment ext w jxClient ns = Inl e' \<longrightarrow>
      fst (GetDevEnv ext verbose w) = (False, empty_Environment))
   \<and> (JXClientAndDevNamespace ext w = Inr (jxClient, ns) \<and> GetDevEnvironment ext w jxClient ns = Inr devEnv \<longrightarrow>
      fst (GetDevEnv ext verbose w) = (Spec_Source_URL devEnv \<noteq> [], devEnv))"
  by (simp add: GetDevEnv_def)

theorem GetDevEnv_result_witness:
  "fst (GetDevEnv (example_ext\<lparr>JXClientAndDevNamespace := (\<lambda>w. Inl (External ''no cluster''))\<rparr>) True [])
     = (False, empty_Environment)
   \<and> fst (GetDevEnv (example_ext\<lparr>GetDevEnvironment := (\<lambda>w c ns. Inl (External ''not found''))\<rparr>) False [])
     = (False, empty_Environment)
   \<and> fst (GetDevEnv example_ext False [])
     = (True, \<lparr>Spec_Source_URL = ''https://github.com/acme/env-dev.git'',
                Spec_TeamSettings_AppsRepository = []\<rparr>)
   \<and> fst (GetDevEnv (example_ext\<lparr>GetDevEnvironment := (\<lambda>w c ns. Inr empty_Environment)\<rparr>) False [])
     = (False, empty_Environment)"
  using GetDevEnv_result [of "example_ext\<lparr>JXClientAndDevNamespace := (\<lambda>w. Inl (External ''no cluster''))\<rparr>"
           "[]" "External ''no cluster''" True]
        GetDevEnv_result [of "example_ext\<lparr>GetDevEnvironment := (\<lambda>w c ns. Inl (External ''not found''))\<rparr>"
           "[]" _ False "JXClient 0" "''jx''" "External ''not found''"]
        GetDevEnv_result [of example_ext "[]" _ False "JXClient 0" "''jx''" _
           "\<lparr>Spec_Source_URL = ''https://github.com/acme/env-dev.git'',
             Spec_TeamSettings_AppsRepository = []\<rparr>"]
        GetDevEnv_result [of "example_ext\<lparr>GetDevEnvironment := (\<lambda>w c ns. Inr empty_Environment)\<rparr>"
           "[]" _ False "JXClient 0" "''jx''" _ empty_Environment]
  by (simp add: example_ext_def empty_Environment_def)

subsection \<open>Secrets\<close>

lemma vault_writes_append: "vault_writes (a @ b) = vault_writes a @ vault_writes b"
  by (simp add: vault_writes_def)






lemma projections_Nil: "vault_writes [] = []" "template_files [] = []" "values_files [] = []"
  by (simp_all add: vault_writes_def template_files_def values_files_def)


lemma write_secrets_Cons:
  "write_secrets ext c base (s # rest) w =
     (case WriteMap ext w c (Join [base, secret_Name s] ''/'') (Mapping.update (Key s) (Value s) Mapping.empty) of
        Some err \<Rightarrow> (Some err, w @ [secret_event base s])
      | None \<Rightarrow> write_secrets ext c base rest (w @ [secret_event base s]))"
  by (simp only: write_secrets.simps Let_def secret_event_def)

lemma write_secrets_world:
  "\<exists>n. snd (write_secrets ext c base secrets w) = w @ map (secret_event base) (take n secrets)
       \<and> (fst (write_secrets ext c base secrets w) = None \<longrightarrow> length secrets \<le> n)"
proof (induction secrets arbitrary: w)
  case Nil
  show ?case by simp
next
  case (Cons s rest)
  show ?case
  proof (cases "WriteMap ext w c (Join [base, secret_Name s] ''/'') (Mapping.update (Key s) (Value s) Mapping.empty)")
    case (Some err)
    have "write_secrets ext c base (s # rest) w = (Some err, w @ [secret_event base s])"
      unfolding write_secrets_Cons Some by simp
    then show ?thesis
      by (intro exI [of _ 1]) simp
  next
    case None
    have step: "write_secrets ext c base (s # rest) w
                  = write_secrets ext c base rest (w @ [secret_event base s])"
      unfolding write_secrets_Cons None by simp
    from Cons.IH [of "w @ [secret_event base s]"] show ?thesis
    proof (elim exE conjE)
      fix n
      assume n: "snd (write_secrets ext c base rest (w @ [secret_event base s]))
                   = (w @ [secret_event base s]) @ map (secret_event base) (take n rest)"
        and l: "fst (write_secrets ext c base rest (w @ [secret_event base s])) = None
                  \<longrightarrow> length rest \<le> n"
      show ?thesis
        unfolding step
        by (rule exI [of _ "Suc n"]) (simp add: n l)
    qed
  qed
qed

lemma vault_writes_events:
  "vault_writes (map (secret_event base) xs)
     = map (\<lambda>s. (Join [base, secret_Name s] ''/'', (Mapping.update (Key s) (Value s) Mapping.empty))) xs"
  by (induction xs) (simp_all add: vault_writes_def secret_event_def)



lemma handleSecrets_vault:
  assumes "UseVault opts" and "secrets \<noteq> []"
  shows "handleSecrets ext dir app secrets opts w =
     (case initVault ext opts w of
        Inl err \<Rightarrow> ((NoClose, Some err), opts, w)
      | Inr (c, base) \<Rightarrow>
          ((NoClose, fst (write_secrets ext c base secrets w)), opts,
           snd (write_secrets ext c base secrets w)))"
  using assms
  by (simp add: handleSecrets_def split: sum.split prod.split option.split)


text \<open>
  C10. With no generated secrets \<open>handleSecrets\<close> returns the function that does
  nothing and no error, and leaves the options (so \<open>ValuesFiles\<close>) and the world (so
  the secret store and the files) as they were.
\<close>

theorem handleSecrets_no_secrets:
  "handleSecrets ext dir app [] opts w = ((NoClose, None), opts, w)"
  by (simp add: handleSecrets_def)




lemma initVault_base:
  assumes "initVault ext opts w = Inr (client, base)"
  shows "if GitOps opts
         then \<exists>gitInfo. ParseGitURL ext (Spec_Source_URL (DevEnv opts)) = Inr gitInfo
                \<and> base = ''gitOps/'' @ Organisation gitInfo @ ''/'' @ Name gitInfo
         else \<exists>teamName envName. TeamAndEnvironmentNames ext w = Inr (teamName, envName)
                \<and> base = ''teams/'' @ teamName"
  using assms
  by (auto simp: initVault_def split: if_splits sum.splits prod.splits)

lemma secret_event_path:
  "secret_event base s
     = VaultWriteMap (base @ ''/'' @ secret_Name s) (Mapping.update (Key s) (Value s) Mapping.empty)"
  by (simp add: secret_event_def)

text \<open>
  C6. With the vault in use and \<open>initVault\<close> successful, the base path is \<open>gitOps\<close>,
  the organisation and the name of the repository of the development environment when
  GitOps is used, and \<open>teams\<close> and the name of the team otherwise; and the writes to the
  secret store are, in order, those of the first secrets of the list (of all of them
  when \<open>handleSecrets\<close> returns no error), the secret named \<open>s\<close> with key \<open>k\<close> and value
  \<open>v\<close> written at the base path, a slash and \<open>s\<close>, with the content \<open>{k: v}\<close>.
\<close>

theorem vault_path_layout:
  assumes "UseVault opts" and "initVault ext opts w = Inr (client, base)"
  shows "(if GitOps opts
          then \<exists>gitInfo. ParseGitURL ext (Spec_Source_URL (DevEnv opts)) = Inr gitInfo
                 \<and> base = ''gitOps/'' @ Organisation gitInfo @ ''/'' @ Name gitInfo
          else \<exists>teamName envName. TeamAndEnvironmentNames ext w = Inr (teamName, envName)
                 \<and> base = ''teams/'' @ teamName)
       \<and> (\<exists>n. vault_writes (snd (snd (handleSecrets ext dir app secrets opts w)))
                 = vault_writes w
                   @ map (\<lambda>s. (base @ ''/'' @ secret_Name s,
                                Mapping.update (Key s) (Value s) Mapping.empty))
                         (take n secrets)
              \<and> (snd (fst (handleSecrets ext dir app secrets opts w)) = None
                   \<longrightarrow> n = length secrets))"
proof (rule conjI)
  show "if GitOps opts
        then \<exists>gitInfo. ParseGitURL ext (Spec_Source_URL (DevEnv opts)) = Inr gitInfo
               \<and> base = ''gitOps/'' @ Organisation gitInfo @ ''/'' @ Name gitInfo
        else \<exists>teamName envName. TeamAndEnvironmentNames ext w = Inr (teamName, envName)
               \<and> base = ''teams/'' @ teamName"
    by (rule initVault_base [OF assms(2)])
next
  let ?f = "\<lambda>s. (base @ ''/'' @ secret_Name s, Mapping.update (Key s) (Value s) Mapping.empty)"
  have ev: "\<And>xs. vault_writes (map (secret_event base) xs) = map ?f xs"
    by (simp add: vault_writes_events)
  show "\<exists>n. vault_writes (snd (snd (handleSecrets ext dir app secrets opts w)))
                 = vault_writes w @ map ?f (take n secrets)
              \<and> (snd (fst (handleSecrets ext dir app secrets opts w)) = None
                   \<longrightarrow> n = length secrets)"
  proof (cases "secrets = []")
    case True
    then show ?thesis by (simp add: handleSecrets_def)
  next
    case False
    note hs = handleSecrets_vault [OF assms(1) False, where ext = ext and dir = dir and app = app and w = w]
    from write_secrets_world [where ext = ext and c = client and base = base and secrets = secrets and w = w]
    obtain n where
      n: "snd (write_secrets ext client base secrets w) = w @ map (secret_event base) (take n secrets)"
      and l: "fst (write_secrets ext client base secrets w) = None \<longrightarrow> length secrets \<le> n"
      by (elim exE conjE)
    have t: "take (min n (length secrets)) secrets = take n secrets"
      by (simp add: min_def)
    have "vault_writes (snd (snd (handleSecrets ext dir app secrets opts w)))
            = vault_writes w @ map ?f (take (min n (length secrets)) secrets)
          \<and> (snd (fst (handleSecrets ext dir app secrets opts w)) = None
               \<longrightarrow> min n (length secrets) = length secrets)"
      unfolding t using l
      by (simp add: hs assms(2) n vault_writes_append ev)
    then show ?thesis by (rule exI)
  qed
qed

theorem vault_path_layout_witness:
  "UseVault (example_options False True)
   \<and> initVault example_ext (example_options False True) [] = Inr (VaultClient 0, ''teams/myteam'')
   \<and> vault_writes (snd (snd (handleSecrets example_ext ''/tmp/chart'' ''myapp'' example_secrets
                                (example_options False True) [])))
       = [(''teams/myteam/db'', Mapping.update ''password'' ''s3cr3t'' Mapping.empty),
          (''teams/myteam/api'', Mapping.update ''token'' ''t0k3n'' Mapping.empty)]
   \<and> initVault example_ext (example_options True True) [] = Inr (VaultClient 0, ''gitOps/acme/env-dev'')
   \<and> vault_writes (snd (snd (handleSecrets example_ext ''/tmp/chart'' ''myapp'' example_secrets
                                (example_options True True) [])))
       = [(''gitOps/acme/env-dev/db'', Mapping.update ''password'' ''s3cr3t'' Mapping.empty),
          (''gitOps/acme/env-dev/api'', Mapping.update ''token'' ''t0k3n'' Mapping.empty)]"
proof -
  have u: "\<And>g. UseVault (example_options g True)"
    by (simp add: example_options_def)
  have i1: "initVault example_ext (example_options False True) [] = Inr (VaultClient 0, ''teams/myteam'')"
    by (simp add: initVault_def example_ext_def example_options_def)
  have i2: "initVault example_ext (example_options True True) [] = Inr (VaultClient 0, ''gitOps/acme/env-dev'')"
    by (simp add: initVault_def example_ext_def example_options_def)
  have ok: "\<And>g. snd (fst (handleSecrets example_ext ''/tmp/chart'' ''myapp'' example_secrets
                         (example_options g True) [])) = None"
    by (simp add: handleSecrets_def initVault_def example_secrets_def example_ext_def
          example_options_def Let_def)
  show ?thesis
    using vault_path_layout [OF u i1, where dir = "''/tmp/chart''" and app = "''myapp''"
             and secrets = example_secrets]
          vault_path_layout [OF u i2, where dir = "''/tmp/chart''" and app = "''myapp''"
             and secrets = example_secrets]
    by (simp add: u i1 i2 ok projections_Nil) (simp add: example_secrets_def)
qed

subsection \<open>\<open>Run\<close> with GitOps\<close>

lemma te_simps:
  "template_effects (a @ b) = template_effects a @ template_effects b"
  "template_effects [] = []"
  "template_effects (e # w) =
     (case e of MkdirAll d perm \<Rightarrow> [e] | WriteFile n c perm \<Rightarrow> [e] | _ \<Rightarrow> []) @ template_effects w"
  by (simp_all add: template_effects_def split: app_event.split)

lemma te_events: "template_effects (map (secret_event base) xs) = []"
  by (induction xs) (simp_all add: te_simps secret_event_def)

lemma run_close_te: "template_effects (snd (run_close ext c w)) = template_effects w"
  by (simp add: run_close_def Let_def te_simps split: closer.split option.split)

lemma run_deferred_te:
  "template_effects (snd (snd (run_deferred ext cs r))) = template_effects (snd (snd r))"
proof (induction cs arbitrary: r)
  case Nil
  show ?case by simp
next
  case (Cons c cs)
  obtain err opts w where r: "r = (err, opts, w)" by (cases r)
  show ?case
    unfolding r by (simp add: case_prod_beta Cons.IH run_close_te)
qed

lemma OnAppInstall_te: "template_effects (snd (OnAppInstall ext app version w)) = template_effects w"
  by (simp add: OnAppInstall_def Let_def te_simps split: sum.split prod.split)

lemma installApp_te:
  "template_effects (snd (installApp ext name chart version opts w)) = template_effects w"
  by (simp add: installApp_def Let_def te_simps OnAppInstall_te split: option.split)

lemma createPR_te:
  "template_effects (snd (createPR ext app dir version opts w)) = template_effects w"
  by (simp add: createPR_def Let_def te_simps split: sum.split)

lemma handleValues_te:
  "template_effects (snd (snd (handleValues ext dir app vals opts w))) = template_effects w"
  by (simp add: handleValues_def Let_def te_simps split: sum.split option.split)

lemma handleValues_UseVault:
  "UseVault (fst (snd (handleValues ext dir app vals opts w))) = UseVault opts"
  by (simp add: handleValues_def Let_def split: sum.split option.split)

lemma handleSecrets_te:
  assumes "UseVault opts"
  shows "template_effects (snd (snd (handleSecrets ext dir app secrets opts w))) = template_effects w"
proof (cases "secrets = []")
  case True
  then show ?thesis by (simp add: handleSecrets_def)
next
  case False
  note hs = handleSecrets_vault [OF assms False, where ext = ext and dir = dir and app = app and w = w]
  show ?thesis
  proof (cases "initVault ext opts w")
    case (Inl err)
    then show ?thesis by (simp add: hs)
  next
    case (Inr cb)
    obtain c base where cb: "cb = (c, base)" by (cases cb)
    from write_secrets_world [where ext = ext and c = c and base = base and secrets = secrets and w = w]
    obtain n where
      n: "snd (write_secrets ext c base secrets w) = w @ map (secret_event base) (take n secrets)"
      by (elim exE conjE)
    show ?thesis
      by (simp add: hs Inr cb n te_simps te_events)
  qed
qed

lemma inspectChartFunc_install_te:
  "template_effects (snd (snd (inspectChartFunc_install ext app dir version opts w))) = template_effects w"
  by (simp add: inspectChartFunc_install_def case_prod_beta createPR_te installApp_te)

lemma inspectChartFunc_schema_te:
  assumes "UseVault opts"
  shows "template_effects (snd (snd (inspectChartFunc_schema ext app dir version schemaFile schema opts w)))
           = template_effects w"
  unfolding inspectChartFunc_schema_def
  by (simp add: Let_def case_prod_beta te_simps run_deferred_te inspectChartFunc_install_te
        handleValues_te handleSecrets_te handleValues_UseVault assms
        split: sum.split option.split)

lemma inspectChartFunc_inspect_te:
  assumes "UseVault opts"
  shows "template_effects (snd (snd (inspectChartFunc_inspect ext app dir version opts w))) = template_effects w"
  unfolding inspectChartFunc_inspect_def
  by (simp add: Let_def inspectChartFunc_install_te inspectChartFunc_schema_te assms
        split: sum.split option.split)

lemma inspectChartFunc_te:
  assumes "UseVault opts"
  shows "template_effects (snd (snd (inspectChartFunc ext app version0 dir opts w))) = template_effects w"
  unfolding inspectChartFunc_def
  by (simp add: te_simps inspectChartFunc_inspect_te assms split: sum.split prod.split)

lemma GetDevEnv_gitops_world:
  "fst (fst (GetDevEnv ext verbose w)) \<Longrightarrow> snd (GetDevEnv ext verbose w) = w"
  by (auto simp: GetDevEnv_def split: sum.splits prod.splits)

lemma Run_invalid_gitops:
  "GitOps opts \<Longrightarrow> \<not> UseVault opts \<Longrightarrow> Run_invalid ext opts \<noteq> None"
  by (simp add: Run_invalid_def Let_def)

lemma Run_invalid_vault:
  "GitOps opts \<Longrightarrow> Run_invalid ext opts = None \<Longrightarrow> UseVault opts"
  using Run_invalid_gitops by blast

lemma Run_unfold_app:
  assumes "GetDevEnv ext (Verbose o0) w0 = ((gitOps, devEnv), w1)"
      and "o1 = o0\<lparr>GitOps := gitOps, DevEnv := devEnv\<rparr>"
      and "o2 = (if Repo o1 = [] then o1\<lparr>Repo := Spec_TeamSettings_AppsRepository (DevEnv o1)\<rparr> else o1)"
      and "o3 = (if Repo o2 = [] then o2\<lparr>Repo := DEFAULT_CHARTMUSEUM_URL ext\<rparr> else o2)"
  shows "AddAppOptions_Run ext o0 w0 =
     (case Run_invalid ext o3 of
           Some err \<Rightarrow> (Some err, o3, w1)
         | None \<Rightarrow>
             (case Args o3 of
                [app] \<Rightarrow>
                  if Repo o3 = [] then (Some (Errorf ''must specify a repository'' []), o3, w1)
                  else InspectChart ext app (Version o3) (Repo o3) (Username o3) (Password o3)
                         (inspectChartFunc ext app (Version o3)) o3 w1
              | _ \<Rightarrow> (Cmd_Help ext w1, o3, w1 @ [CmdHelp])))"
  unfolding AddAppOptions_Run_def assms(1) assms(4) assms(3) assms(2)
  by (simp only: Let_def prod.case)

text \<open>
  C9. When \<open>GetDevEnv\<close> says that the development environment uses GitOps: without
  the vault \<open>Run\<close> returns an error and the world is as it was before; and in any case
  \<open>Run\<close> adds no call of \<open>os.MkdirAll\<close> or \<open>ioutil.WriteFile\<close>, the first calls of
  the branch of \<open>handleSecrets\<close> that writes \<open>app-generated-secret-template.yaml\<close>: that
  branch is not entered.
\<close>

theorem gitops_requires_vault:
  assumes "fst (fst (GetDevEnv ext (Verbose o0) w0))"
  shows "(\<not> UseVault o0 \<longrightarrow>
            fst (AddAppOptions_Run ext o0 w0) \<noteq> None
          \<and> snd (snd (AddAppOptions_Run ext o0 w0)) = w0)
       \<and> template_effects (snd (snd (AddAppOptions_Run ext o0 w0))) = template_effects w0"
proof -
  obtain gitOps devEnv w1 where g: "GetDevEnv ext (Verbose o0) w0 = ((gitOps, devEnv), w1)"
    by (cases "GetDevEnv ext (Verbose o0) w0") auto
  from assms g have gitOps: "gitOps" by simp
  from GetDevEnv_gitops_world [OF assms] g have w1: "w1 = w0" by simp
  define o1 where "o1 = o0\<lparr>GitOps := gitOps, DevEnv := devEnv\<rparr>"
  define o2 where "o2 = (if Repo o1 = [] then o1\<lparr>Repo := Spec_TeamSettings_AppsRepository (DevEnv o1)\<rparr> else o1)"
  define o3 where "o3 = (if Repo o2 = [] then o2\<lparr>Repo := DEFAULT_CHARTMUSEUM_URL ext\<rparr> else o2)"
  note run = Run_unfold_app [OF g o1_def o2_def o3_def]
  have go: "GitOps o3" and uv: "UseVault o3 = UseVault o0"
    by (simp_all add: o3_def o2_def o1_def gitOps)
  have first: "\<not> UseVault o0 \<Longrightarrow>
      fst (AddAppOptions_Run ext o0 w0) \<noteq> None \<and> snd (snd (AddAppOptions_Run ext o0 w0)) = w0"
  proof -
    assume "\<not> UseVault o0"
    with uv go have "Run_invalid ext o3 \<noteq> None"
      by (simp add: Run_invalid_gitops)
    then obtain err where "Run_invalid ext o3 = Some err" by auto
    then show ?thesis by (simp add: run w1)
  qed
  have second: "template_effects (snd (snd (AddAppOptions_Run ext o0 w0))) = template_effects w0"
  proof (cases "Run_invalid ext o3")
    case (Some err)
    then show ?thesis by (simp add: run w1)
  next
    case None
    with go have "UseVault o3" by (rule Run_invalid_vault)
    then show ?thesis
      unfolding run None
      by (simp add: w1 InspectChart_def te_simps inspectChartFunc_te
            split: list.split sum.split)
  qed
  from first second show ?thesis by simp
qed

theorem gitops_requires_vault_witness:
  "fst (fst (GetDevEnv example_ext (Verbose (example_options False False)) []))
   \<and> fst (AddAppOptions_Run example_ext (example_options False False) []) \<noteq> None
   \<and> snd (snd (AddAppOptions_Run example_ext (example_options False False) [])) = []
   \<and> template_effects (snd (snd (AddAppOptions_Run example_ext (example_options False True) []))) = []"
  using gitops_requires_vault [of example_ext "example_options False False" "[]"]
        gitops_requires_vault [of example_ext "example_options False True" "[]"]
  by (simp add: GetDevEnv_def example_ext_def example_options_def te_simps)

end
